theory Spec2Isabelle
  imports Complex_Main "HOL-Library.Word"
begin

section \<open>The AT-200PC control program (at200pc.py)\<close>

text \<open>
  A shallow embedding of the device-facing part of \<open>at200pc.py\<close>: the receive state
  machine and parameter store of \<open>Application.Read\<close>, the command writer
  \<open>Application.Write\<close>, the button handlers that send commands, the steady-state
  loop body of \<open>Application.main\<close> and the value derivations of
  \<open>Application.NewData\<close>.

  Conventions.
  \<^item> A character read from the serial port is a Python \<open>int\<close> in \<open>range(256)\<close>
    (iterating over \<open>bytes\<close>); it is a \<open>byte\<close>, read as a number with \<open>uint\<close>/\<open>unat\<close>.
  \<^item> Python's \<open>None\<close> in a parameter cell is \<open>None\<close>; an attribute that has not
    been assigned yet (\<open>is_standby\<close>) is \<open>None\<close> as well and reading it raises
    \<open>AttributeError\<close>.
  \<^item> Python floats are modelled by exact reals; rounding is not modelled.
  \<^item> A raised exception is \<open>Inl\<close> of a \<open>py_error\<close>.
  \<^item> The serial transport is an input (the characters a \<open>read\<close> returns) and an
    output log (\<open>sent\<close>: the bytes written); the RTS line and the sleeps are
    not modelled, and a transport write is taken to succeed.
\<close>

subsection \<open>Data\<close>

type_synonym byte = "8 word"

datatype py_error = TypeError | ValueError | ZeroDivisionError | IndexError
  | AttributeError | KeyError

record app =
  rx_state :: nat
  rx_byte1 :: byte
  rx_byte2 :: byte
  serial_open :: bool
  sent :: "nat list"
  tune_status :: string
  param1 :: "byte option list"
  param2 :: "byte option list"
  is_standby :: "bool option"
  autotune :: "int option"

text \<open>
  \<open>Application.__init__\<close>, lines 213-217. \<open>rx_byte1\<close> and \<open>rx_byte2\<close> are assigned in
  receive states 1 and 2 before state 3 reads them, so their initial value is never
  read; \<open>autotune\<close> is assigned by line 394 before the steady-state loop reads it.
\<close>

definition init :: app where
  "init = \<lparr> rx_state = 0, rx_byte1 = 0, rx_byte2 = 0, serial_open = False, sent = [],
            tune_status = ''None'', param1 = replicate 20 None, param2 = replicate 20 None,
            is_standby = None, autotune = None \<rparr>"

text \<open>
  The two parameter lists are created with 20 cells and no operation resizes them.
  Every index the program uses is a constant below 20 or a received index guarded by
  line 489, so under \<open>wf\<close> no list access is out of range.
\<close>

definition wf :: "app \<Rightarrow> bool" where
  "wf s = (length (param1 s) = 20 \<and> length (param2 s) = 20)"

subsection \<open>Exceptions\<close>

text \<open>Sequencing: an exception raised by the first step ends the computation.\<close>

definition bindE :: "'e + 'a \<Rightarrow> ('a \<Rightarrow> 'e + 'b) \<Rightarrow> 'e + 'b" where
  "bindE m f = (case m of Inl e \<Rightarrow> Inl e | Inr x \<Rightarrow> f x)"

subsection \<open>Write: sending a command\<close>

text \<open>
  \<open>chr(i)\<close> raises \<open>ValueError\<close> outside \<open>range(0x110000)\<close>. \<open>Write(s)\<close> sends
  \<open>s.encode()\<close>, the UTF-8 encoding of the one-character string: one byte below 128.
  A surrogate code point makes \<open>encode\<close> raise inside the \<open>try\<close> of \<open>Write\<close>, which
  prints the traceback and sends nothing.
\<close>

definition py_chr :: "int \<Rightarrow> py_error + nat" where
  "py_chr i = (if 0 \<le> i \<and> i < 1114112 then Inr (nat i) else Inl ValueError)"

definition encode :: "nat \<Rightarrow> nat list option" where
  "encode n =
     (if n < 128 then Some [n]
      else if n < 2048 then Some [192 + n div 64, 128 + n mod 64]
      else if 55296 \<le> n \<and> n < 57344 then None
      else if n < 65536
        then Some [224 + n div 4096, 128 + (n div 64) mod 64, 128 + n mod 64]
      else Some [240 + n div 262144, 128 + (n div 4096) mod 64,
                 128 + (n div 64) mod 64, 128 + n mod 64])"

definition Write :: "nat \<Rightarrow> app \<Rightarrow> app" where
  "Write c s =
     (if serial_open s
      then (case encode c of Some bs \<Rightarrow> s\<lparr>sent := sent s @ bs\<rparr> | None \<Rightarrow> s)
      else s)"

subsection \<open>Read: the receive state machine and the parameter store\<close>

text \<open>
  Lines 489-510: what \<open>Read\<close> does with a complete block \<open>byte1, byte2, byte3\<close>.
  The pair is the application and the local \<open>change\<close>.
\<close>

definition apply_frame :: "byte \<Rightarrow> byte \<Rightarrow> byte \<Rightarrow> app \<times> bool \<Rightarrow> app \<times> bool" where
  "apply_frame byte1 byte2 byte3 sc =
     (let s = fst sc; change = snd sc in
      if byte1 > 19 then (s, change)
      else
        let s1 =
          (if byte1 = 9 then s\<lparr>tune_status := ''OK'', param2 := (param2 s)[6 := None]\<rparr>
           else if byte1 = 10 then
             s\<lparr>tune_status :=
                  (if byte2 = 0 then ''No RF''
                   else if byte2 = 1 then ''Lost RF''
                   else if byte2 = 2 then ''High SWR''
                   else ''Error''),
               param2 := (param2 s)[6 := None]\<rparr>
           else if byte1 = 13 then s\<lparr>is_standby := Some True\<rparr>
           else if byte1 = 14 then s\<lparr>is_standby := Some False\<rparr>
           else s)
        in (s1\<lparr>param1 := (param1 s1)[unat byte1 := Some byte2],
               param2 := (param2 s1)[unat byte1 := Some byte3]\<rparr>, True))"

text \<open>
  Lines 473-488: one character through the state machine. The second component is
  the block completed by this character, if any (the point of the \<open>Received\<close> debug
  print).
\<close>

definition rx_step :: "byte \<Rightarrow> app \<Rightarrow> app \<times> (byte \<times> byte \<times> byte) option" where
  "rx_step ch s =
     (if rx_state s = 0 then (if ch = 165 then (s\<lparr>rx_state := 1\<rparr>, None) else (s, None))
      else if rx_state s = 1 then (s\<lparr>rx_state := 2, rx_byte1 := ch\<rparr>, None)
      else if rx_state s = 2 then (s\<lparr>rx_state := 3, rx_byte2 := ch\<rparr>, None)
      else if rx_state s = 3 then (s\<lparr>rx_state := 0\<rparr>, Some (rx_byte1 s, rx_byte2 s, ch))
      else (s, None))"

text \<open>The loop of lines 472-510 over the characters read.\<close>

fun Read_loop :: "byte list \<Rightarrow> app \<times> bool \<Rightarrow> app \<times> bool" where
  "Read_loop [] sc = sc"
| "Read_loop (ch # chars) sc =
     (case rx_step ch (fst sc) of
        (s1, None) \<Rightarrow> Read_loop chars (s1, snd sc)
      | (s1, Some (byte1, byte2, byte3)) \<Rightarrow>
          Read_loop chars (apply_frame byte1 byte2 byte3 (s1, snd sc)))"

text \<open>
  \<open>Read\<close>, lines 462-511; \<open>chars\<close> is what \<open>serial.read(1024)\<close> returns (nothing is
  read when the port is not open).
\<close>

definition Read :: "byte list \<Rightarrow> app \<Rightarrow> app \<times> bool" where
  "Read chars s = Read_loop (if serial_open s then chars else []) (s, False)"

text \<open>The blocks that the loop completes, in order: the trace of the debug print.\<close>

fun frames :: "byte list \<Rightarrow> app \<Rightarrow> (byte \<times> byte \<times> byte) list" where
  "frames [] s = []"
| "frames (ch # chars) s =
     (case rx_step ch s of
        (s1, None) \<Rightarrow> frames chars s1
      | (s1, Some (byte1, byte2, byte3)) \<Rightarrow>
          (byte1, byte2, byte3) # frames chars (fst (apply_frame byte1 byte2 byte3 (s1, False))))"

subsection \<open>Button handlers\<close>

text \<open>
  Lines 418-447. The argument \<open>v\<close> is the truth value of \<open>btn.GetValue()\<close>, the
  state of the check button when the handler runs; \<open>req\<close> is \<open>btn.req\<close>, which
  goes through \<open>chr\<close> before \<open>Write\<close> (line 419). Where the source writes \<open>chr\<close> of
  a literal below 128, which cannot raise, the model passes the literal to \<open>Write\<close>.
\<close>

definition truthy :: "byte option \<Rightarrow> bool" where
  "truthy v = (case v of None \<Rightarrow> False | Some b \<Rightarrow> b \<noteq> 0)"

definition OnButtonReq :: "int \<Rightarrow> app \<Rightarrow> py_error + app" where
  "OnButtonReq req s = bindE (py_chr req) (\<lambda>c. Inr (Write c s))"

definition OnButtonHiLoZ :: "app \<Rightarrow> app" where
  "OnButtonHiLoZ s = (if truthy (param1 s ! 3) then Write 8 s else Write 9 s)"

definition OnButtonAnt :: "bool \<Rightarrow> app \<Rightarrow> app" where
  "OnButtonAnt v s = (if v then Write 11 s else Write 10 s)"

definition OnButtonStandby :: "bool \<Rightarrow> app \<Rightarrow> app" where
  "OnButtonStandby v s =
     (let s1 = (if v then Write 44 s else Write 45 s)
      in s1\<lparr>param2 := (param2 s1)[6 := None]\<rparr>)"

definition OnButtonAuto :: "bool \<Rightarrow> app \<Rightarrow> app" where
  "OnButtonAuto v s = (if v then s\<lparr>autotune := Some 0\<rparr> else s\<lparr>autotune := Some 1\<rparr>)"

subsection \<open>The SWR threshold radio buttons\<close>

text \<open>
  Line 231: the labels of the row, which are the values of its buttons in
  \<open>button_list\<close> order. \<open>buttons\<close> maps a value to the last button created with it,
  so \<open>GetIndex\<close> (lines 198-201) is the position of the last button whose value is
  the variable's, and a \<open>KeyError\<close> when there is none. \<open>DisplayIndex\<close> (lines
  194-197) sets the variable to the value of the button at an index.
\<close>

definition labels :: "real list" where
  "labels = [1.1, 1.3, 1.5, 1.7, 2.0, 2.5, 3.0]"

fun last_index :: "'a list \<Rightarrow> 'a \<Rightarrow> nat option" where
  "last_index [] v = None"
| "last_index (x # xs) v =
     (case last_index xs v of
        Some i \<Rightarrow> Some (Suc i)
      | None \<Rightarrow> if x = v then Some 0 else None)"

definition GetIndex :: "real \<Rightarrow> py_error + nat" where
  "GetIndex var = (case last_index labels var of None \<Rightarrow> Inl KeyError | Some i \<Rightarrow> Inr i)"

definition DisplayIndex :: "byte option \<Rightarrow> py_error + real" where
  "DisplayIndex index =
     (case index of
        None \<Rightarrow> Inl TypeError
      | Some i \<Rightarrow> if unat i < length labels then Inr (labels ! unat i) else Inl IndexError)"

text \<open>Lines 446-447; \<open>var\<close> is the value of the selected radio button.\<close>

definition OnButtonSwr :: "real \<Rightarrow> app \<Rightarrow> py_error + app" where
  "OnButtonSwr var s =
     bindE (GetIndex var) (\<lambda>i. bindE (py_chr (int i + 50)) (\<lambda>c. Inr (Write c s)))"

subsection \<open>NewData: the derived values\<close>

definition MAX_POWER :: real where "MAX_POWER = 200"
definition MAX_SWR :: real where "MAX_SWR = 5"

record display =
  forw_power :: real
  forw_frac :: real
  refl_power :: real
  refl_frac :: real
  swr_value :: "real option"
  swr_frac :: real
  standby_shown :: bool
  antenna2_shown :: bool
  auto_on_shown :: bool
  swr_threshold :: real
  freq_khz :: real
  induc :: int
  capac :: int
  hilow :: string
  tune_shown :: string

text \<open>A cell used as a number: arithmetic and \<open>%d\<close> raise \<open>TypeError\<close> on \<open>None\<close>.\<close>

definition num :: "byte option \<Rightarrow> py_error + int" where
  "num v = (case v of None \<Rightarrow> Inl TypeError | Some b \<Rightarrow> Inr (uint b))"

text \<open>
  Lines 529-543: the SWR shown and the fraction of its meter. \<open>None\<close> is the bare
  text \<open>SWR\<close> with an empty meter. A float division by zero raises.
\<close>

definition swr_display :: "real \<Rightarrow> byte option \<Rightarrow> py_error + real option \<times> real" where
  "swr_display pwr code =
     (case code of
        None \<Rightarrow> Inr (None, 0)
      | Some c \<Rightarrow>
          if pwr \<ge> 2 then
            (let rho = sqrt (real (unat c) / 256) in
             if 1 - rho = 0 then Inl ZeroDivisionError
             else
               let swr = (1 + rho) / (1 - rho);
                   swr = (if swr > 99.9 then 99.9 else swr)
               in Inr (Some swr, min 1 ((swr - 1) / (MAX_SWR - 1))))
          else Inr (None, 0))"

text \<open>
  Lines 513-580, in the order the source evaluates. The result is the complete
  refresh; the widgets already changed when an exception is raised are not modelled.
\<close>

definition NewData :: "app \<Rightarrow> py_error + display" where
  "NewData s =
     bindE (num (param1 s ! 5)) (\<lambda>a5. bindE (num (param2 s ! 5)) (\<lambda>b5.
     let pwr = real_of_int (a5 * 256 + b5) / 100 in
     bindE (num (param1 s ! 18)) (\<lambda>a18. bindE (num (param2 s ! 18)) (\<lambda>b18.
     let refl = real_of_int (a18 * 256 + b18) / 100 in
     bindE (swr_display pwr (param2 s ! 6)) (\<lambda>sw.
     bindE (case is_standby s of None \<Rightarrow> Inl AttributeError | Some b \<Rightarrow> Inr b) (\<lambda>standby.
     bindE (DisplayIndex (param1 s ! 16)) (\<lambda>threshold.
     bindE (num (param1 s ! 7)) (\<lambda>a7. bindE (num (param2 s ! 7)) (\<lambda>b7.
     let freq_code = a7 * 256 + b7 in
     if freq_code = 0 then Inl ZeroDivisionError
     else
       bindE (num (param1 s ! 1)) (\<lambda>l. bindE (num (param1 s ! 2)) (\<lambda>c.
       Inr \<lparr> forw_power = pwr, forw_frac = min 1 (pwr / MAX_POWER),
             refl_power = refl, refl_frac = min 1 (refl / MAX_POWER),
             swr_value = fst sw, swr_frac = snd sw,
             standby_shown = standby,
             antenna2_shown = truthy (param1 s ! 4),
             auto_on_shown = truthy (param1 s ! 17),
             swr_threshold = threshold,
             freq_khz = 20480000 / real_of_int freq_code,
             induc = l, capac = c,
             hilow = (if truthy (param1 s ! 3) then ''Low Z'' else ''High Z''),
             tune_shown = tune_status s \<rparr>)))))))))))"

subsection \<open>The steady-state loop of main\<close>

text \<open>
  Lines 399-406: the command the loop body sends. \<open>now\<close> is \<open>time.time()\<close> (read
  once) and \<open>time0\<close> the local of \<open>main\<close>.
\<close>

definition running_command :: "real \<Rightarrow> app \<times> real \<Rightarrow> py_error + app \<times> real" where
  "running_command now st =
     (let s = fst st; time0 = snd st in
      if param2 s ! 6 = None then
        (if now - time0 \<ge> 1 then Inr (Write 40 s, now) else Inr (s, time0))
      else
        (case is_standby s of
           None \<Rightarrow> Inl AttributeError
         | Some standby \<Rightarrow>
             if standby \<and> param1 s ! 17 \<noteq> Some 0 then Inr (Write 59 s, time0)
             else if \<not> standby \<and> autotune s \<noteq> map_option uint (param1 s ! 17) then
               (case autotune s of
                  None \<Rightarrow> Inl TypeError
                | Some a \<Rightarrow> bindE (py_chr (59 - a)) (\<lambda>c. Inr (Write c s, time0)))
             else Inr (s, time0)))"

text \<open>
  Lines 399-408: one pass of the loop body, with the characters the read returns.
  The display is refreshed when a block was stored. \<open>update()\<close>, which runs the
  button handlers, is outside.
\<close>

definition running_tick ::
  "real \<Rightarrow> byte list \<Rightarrow> app \<times> real \<Rightarrow> py_error + (app \<times> real) \<times> display option" where
  "running_tick now chars st =
     bindE (running_command now st) (\<lambda>st1.
       let r = Read chars (fst st1) in
       if snd r then bindE (NewData (fst r)) (\<lambda>d. Inr ((fst r, snd st1), Some d))
       else Inr ((fst r, snd st1), None))"

subsection \<open>The command codes of section 6 of the specification\<close>

text \<open>
  The specification's table reads \<open>58/59 = auto-tune disable/enable\<close>. These two
  constants follow the specification's words, to be compared with what the source
  sends.
\<close>

definition spec_autotune_disable :: nat where "spec_autotune_disable = 58"
definition spec_autotune_enable :: nat where "spec_autotune_enable = 59"

subsection \<open>The auto-tune command codes in the source\<close>

text \<open>
  Line 404 sends \<open>chr(59)\<close> under the comment \<open>Set autotune OFF\<close>: in the source 59
  switches auto-tune off. Line 406 sends \<open>chr(59 - self.autotune)\<close>, so the code it
  sends for \<open>autotune = 1\<close> is 58.
\<close>

definition autotune_off_code :: nat where "autotune_off_code = 59"
definition autotune_on_code :: nat where "autotune_on_code = 59 - 1"

subsection \<open>A concrete session\<close>

text \<open>
  Nine frames from the device: forward power 25.60 W, reflected power 0.50 W, SWR
  code 0, period code 2048, L = 3, C = 4, threshold index 2, auto-tune flag 1, and
  the standby notification. \<open>example_state\<close> is the application after reading
  them on an open port (lemma \<open>example_state_reached\<close>).
\<close>

definition device_frames :: "byte list" where
  "device_frames =
     [165, 5, 10, 0,  165, 18, 0, 50,  165, 6, 0, 0,  165, 7, 8, 0,  165, 1, 3, 0,
      165, 2, 4, 0,  165, 16, 2, 0,  165, 17, 1, 0,  165, 13, 0, 0]"

definition example_state :: app where
  "example_state =
     \<lparr> rx_state = 0, rx_byte1 = 13, rx_byte2 = 0, serial_open = True, sent = [],
       tune_status = ''None'',
       param1 = [None, Some 3, Some 4, None, None, Some 10, Some 0, Some 8, None, None,
                 None, None, None, Some 0, None, None, Some 2, Some 1, Some 0, None],
       param2 = [None, Some 0, Some 0, None, None, Some 0, Some 0, Some 0, None, None,
                 None, None, None, Some 0, None, None, Some 0, Some 0, Some 50, None],
       is_standby = Some True, autotune = None \<rparr>"

subsection \<open>Auxiliary predicates\<close>

text \<open>
  Two applications agree on what the receive state machine still reads of its three
  fields: \<open>rx_byte1\<close> from state 2 on, \<open>rx_byte2\<close> in state 3.
\<close>

definition rx_same :: "app \<Rightarrow> app \<Rightarrow> bool" where
  "rx_same s t =
     (rx_state s = rx_state t \<and>
      (if rx_state s = 2 then rx_byte1 s = rx_byte1 t
       else if rx_state s = 3 then rx_byte1 s = rx_byte1 t \<and> rx_byte2 s = rx_byte2 t
       else True))"

section \<open>Properties of the parameter store\<close>

lemma list_update_twice_pair:
  "i \<noteq> j \<Longrightarrow> xs[i := a, j := b, i := a, j := b] = xs[i := a, j := b]"
  by (metis list_update_swap list_update_overwrite)

lemma apply_frame_wf: "wf s \<Longrightarrow> wf (fst (apply_frame b1 b2 b3 (s, c)))"
  by (simp add: apply_frame_def wf_def Let_def)

lemma wf_init: "wf init"
  by (simp add: wf_def init_def)

lemma rx_step_wf: "wf s \<Longrightarrow> wf (fst (rx_step ch s))"
  by (simp add: rx_step_def wf_def)

lemma Read_loop_wf: "wf (fst sc) \<Longrightarrow> wf (fst (Read_loop chars sc))"
proof (induction chars arbitrary: sc)
  case Nil
  then show ?case by simp
next
  case (Cons ch chars)
  obtain s1 f where s1: "rx_step ch (fst sc) = (s1, f)" by (cases "rx_step ch (fst sc)")
  with rx_step_wf [OF Cons.prems, of ch] have w: "wf s1" by simp
  show ?case
  proof (cases f)
    case None
    with s1 w Cons.IH [of "(s1, snd sc)"] show ?thesis by simp
  next
    case (Some fr)
    obtain a b c where fr: "fr = (a, b, c)" by (cases fr)
    from Cons.IH [of "apply_frame a b c (s1, snd sc)"] apply_frame_wf [OF w, of a b c "snd sc"]
      s1 Some fr show ?thesis by simp
  qed
qed

text \<open>
  C7. A block whose index byte is greater than 19 changes nothing: applying it
  leaves the application and \<open>change\<close> as they were, and a whole frame carrying
  it, read from the seek-sync state, leaves the parameter lists, the standby flag
  and the tune status untouched and does not set \<open>change\<close>. Whatever is read, the
  lists keep their 20 cells, so no index above 19 is ever stored.
\<close>

theorem apply_frame_out_of_range:
  "19 < b1 \<Longrightarrow>
     apply_frame b1 b2 b3 (s, c) = (s, c) \<and>
     (rx_state s = 0 \<longrightarrow>
        param1 (fst (Read_loop [165, b1, b2, b3] (s, c))) = param1 s \<and>
        param2 (fst (Read_loop [165, b1, b2, b3] (s, c))) = param2 s \<and>
        is_standby (fst (Read_loop [165, b1, b2, b3] (s, c))) = is_standby s \<and>
        tune_status (fst (Read_loop [165, b1, b2, b3] (s, c))) = tune_status s \<and>
        snd (Read_loop [165, b1, b2, b3] (s, c)) = c) \<and>
     (wf s \<longrightarrow> wf (fst (Read chars s)))"
proof -
  assume h: "19 < b1"
  have 1: "\<And>t. apply_frame b1 b2 b3 (t, c) = (t, c)"
    using h by (simp add: apply_frame_def)
  have 2: "Read_loop [165, b1, b2, b3] (s, c) =
             (s\<lparr>rx_state := 0, rx_byte1 := b1, rx_byte2 := b2\<rparr>, c)" if "rx_state s = 0"
    using that by (simp add: rx_step_def 1)
  have 3: "wf (fst (Read chars s))" if "wf s"
    using that Read_loop_wf [of "(s, False)"] by (simp add: Read_def)
  from 1 2 3 show ?thesis by simp
qed

theorem apply_frame_out_of_range_witness:
  "(19 :: byte) < 20 \<and> apply_frame 20 1 2 (init, False) = (init, False) \<and>
   rx_state init = 0 \<and> wf init \<and>
   param1 (fst (Read_loop [165, 20, 1, 2] (init, False))) = param1 init \<and>
   snd (Read_loop [165, 20, 1, 2] (init, False)) = False \<and>
   wf (fst (Read [165, 200, 1, 2] init))"
proof -
  have h: "(19 :: byte) < 20" by simp
  have 0: "rx_state init = 0" by (simp add: init_def)
  from apply_frame_out_of_range [OF h, of 1 2 init False "[165, 200, 1, 2]"] wf_init 0 h
  show ?thesis by blast
qed

text \<open>
  C8. Applying the same block twice gives the same application state as applying
  it once, for every index; for indices 9 and 10 the clearing of \<open>param2[6]\<close> is an
  overwrite.
\<close>

theorem apply_frame_idempotent:
  "apply_frame b1 b2 b3 (apply_frame b1 b2 b3 sc) = apply_frame b1 b2 b3 sc"
proof (cases "19 < b1")
  case True
  then show ?thesis by (simp add: apply_frame_def)
next
  case False
  consider "b1 = 9" | "b1 = 10" | "b1 = 13" | "b1 = 14"
    | "b1 \<noteq> 9" "b1 \<noteq> 10" "b1 \<noteq> 13" "b1 \<noteq> 14" by blast
  then show ?thesis
  proof cases
    case 1
    then show ?thesis by (simp add: apply_frame_def Let_def list_update_twice_pair)
  next
    case 2
    then show ?thesis by (simp add: apply_frame_def Let_def list_update_twice_pair)
  next
    case 3
    then show ?thesis by (simp add: apply_frame_def Let_def)
  next
    case 4
    then show ?thesis by (simp add: apply_frame_def Let_def)
  next
    case 5
    with False show ?thesis by (simp add: apply_frame_def Let_def)
  qed
qed

theorem apply_frame_idempotent_witness:
  "apply_frame 9 0 7 (apply_frame 9 0 7 (init, False)) = apply_frame 9 0 7 (init, False) \<and>
   param2 (fst (apply_frame 9 0 7 (apply_frame 6 1 2 (init, False)))) ! 6 = None"
  using apply_frame_idempotent [of 9 0 7 "(init, False)"]
  by (simp add: apply_frame_def init_def Let_def)

section \<open>The receive state machine\<close>

lemma apply_frame_rx:
  "rx_state (fst (apply_frame b1 b2 b3 sc)) = rx_state (fst sc) \<and>
   rx_byte1 (fst (apply_frame b1 b2 b3 sc)) = rx_byte1 (fst sc) \<and>
   rx_byte2 (fst (apply_frame b1 b2 b3 sc)) = rx_byte2 (fst sc)"
  by (simp add: apply_frame_def Let_def)

lemma rx_step_same:
  "rx_same s t \<Longrightarrow>
     snd (rx_step ch s) = snd (rx_step ch t) \<and> rx_same (fst (rx_step ch s)) (fst (rx_step ch t))"
  by (auto simp: rx_same_def rx_step_def split: if_splits)

lemma apply_frame_same:
  "rx_same s t \<Longrightarrow> rx_same (fst (apply_frame a b c (s, x))) (fst (apply_frame a b c (t, y)))"
  using apply_frame_rx [of a b c "(s, x)"] apply_frame_rx [of a b c "(t, y)"]
  by (simp add: rx_same_def)

lemma frames_same: "rx_same s t \<Longrightarrow> frames chars s = frames chars t"
proof (induction chars arbitrary: s t)
  case Nil
  then show ?case by simp
next
  case (Cons ch chars)
  obtain s1 f where s1: "rx_step ch s = (s1, f)" by (cases "rx_step ch s")
  obtain t1 g where t1: "rx_step ch t = (t1, g)" by (cases "rx_step ch t")
  from rx_step_same [OF Cons.prems, of ch] s1 t1 have fg: "g = f" and st: "rx_same s1 t1"
    by simp_all
  show ?case
  proof (cases f)
    case None
    with s1 t1 fg Cons.IH [OF st] show ?thesis by simp
  next
    case (Some fr)
    obtain a b c where fr: "fr = (a, b, c)" by (cases fr)
    have "frames chars (fst (apply_frame a b c (s1, False))) =
          frames chars (fst (apply_frame a b c (t1, False)))"
      by (rule Cons.IH [OF apply_frame_same [OF st]])
    with s1 t1 fg Some fr show ?thesis by simp
  qed
qed

lemma frames_state0: "rx_state s = 0 \<Longrightarrow> rx_state t = 0 \<Longrightarrow> frames chars s = frames chars t"
  by (rule frames_same) (simp add: rx_same_def)

lemma frames_sync:
  assumes "rx_state s = 0"
  shows "frames (165 # a # b # c # rest) s = (a, b, c) # frames rest s"
proof -
  have 1: "rx_step 165 s = (s\<lparr>rx_state := 1\<rparr>, None)"
    using assms by (simp add: rx_step_def)
  have 2: "rx_step a (s\<lparr>rx_state := 1\<rparr>) = (s\<lparr>rx_state := 2, rx_byte1 := a\<rparr>, None)"
    by (simp add: rx_step_def)
  have 3: "rx_step b (s\<lparr>rx_state := 2, rx_byte1 := a\<rparr>)
             = (s\<lparr>rx_state := 3, rx_byte1 := a, rx_byte2 := b\<rparr>, None)"
    by (simp add: rx_step_def)
  have 4: "rx_step c (s\<lparr>rx_state := 3, rx_byte1 := a, rx_byte2 := b\<rparr>)
             = (s\<lparr>rx_state := 0, rx_byte1 := a, rx_byte2 := b\<rparr>, Some (a, b, c))"
    by (simp add: rx_step_def)
  let ?t = "fst (apply_frame a b c (s\<lparr>rx_state := 0, rx_byte1 := a, rx_byte2 := b\<rparr>, False))"
  have "rx_state ?t = 0"
    using apply_frame_rx [of a b c "(s\<lparr>rx_state := 0, rx_byte1 := a, rx_byte2 := b\<rparr>, False)"]
    by simp
  then have "frames rest ?t = frames rest s" using assms by (rule frames_state0)
  moreover have "frames (165 # a # b # c # rest) s = (a, b, c) # frames rest ?t"
    by (simp only: frames.simps 1 2 3 4 prod.case option.case)
  ultimately show ?thesis by simp
qed

lemma rx_step_noise: "rx_state s = 0 \<Longrightarrow> ch \<noteq> 165 \<Longrightarrow> rx_step ch s = (s, None)"
  by (simp add: rx_step_def)

lemma frames_noise:
  "rx_state s = 0 \<Longrightarrow> 165 \<notin> set noise \<Longrightarrow> frames (noise @ chars) s = frames chars s"
  by (induction noise) (simp_all add: rx_step_noise)

lemma Read_loop_noise:
  "rx_state s = 0 \<Longrightarrow> 165 \<notin> set noise \<Longrightarrow>
     Read_loop (noise @ chars) (s, c) = Read_loop chars (s, c)"
  by (induction noise) (simp_all add: rx_step_noise)

lemma frames_sync_short:
  assumes "rx_state s = 0" and "\<not> (\<exists>a b c rest. chars = a # b # c # rest)"
  shows "frames (165 # chars) s = []"
proof -
  have 1: "rx_step 165 s = (s\<lparr>rx_state := 1\<rparr>, None)"
    using assms(1) by (simp add: rx_step_def)
  show ?thesis
  proof (cases chars)
    case Nil
    with 1 show ?thesis by simp
  next
    case ca: (Cons a as)
    show ?thesis
    proof (cases as)
      case Nil
      with 1 ca show ?thesis by (simp add: rx_step_def)
    next
      case cb: (Cons b bs)
      show ?thesis
      proof (cases bs)
        case Nil
        with 1 ca cb show ?thesis by (simp add: rx_step_def)
      next
        case (Cons c cs)
        with ca cb assms(2) show ?thesis by simp
      qed
    qed
  qed
qed

lemma frames_only_after_sync:
  "rx_state s = 0 \<Longrightarrow> frames chars s \<noteq> [] \<Longrightarrow>
     \<exists>noise a b c rest. chars = noise @ 165 # a # b # c # rest \<and> 165 \<notin> set noise \<and>
        frames chars s = (a, b, c) # frames rest s"
proof (induction chars)
  case Nil
  then show ?case by simp
next
  case (Cons ch chars)
  show ?case
  proof (cases "ch = 165")
    case False
    with Cons.prems have "frames chars s \<noteq> []" by (simp add: rx_step_noise)
    from Cons.IH [OF Cons.prems(1) this] obtain noise a b c rest where
      h: "chars = noise @ 165 # a # b # c # rest" "165 \<notin> set noise"
         "frames chars s = (a, b, c) # frames rest s" by blast
    from h False Cons.prems(1)
    have "ch # chars = (ch # noise) @ 165 # a # b # c # rest \<and> 165 \<notin> set (ch # noise) \<and>
        frames (ch # chars) s = (a, b, c) # frames rest s" by (simp add: rx_step_noise)
    then show ?thesis by blast
  next
    case True
    have "\<exists>a b c rest. chars = a # b # c # rest"
      using frames_sync_short [OF Cons.prems(1), of chars] Cons.prems(2) True by blast
    then obtain a b c rest where ch: "chars = a # b # c # rest" by blast
    from frames_sync [OF Cons.prems(1), of a b c rest] True ch
    have "ch # chars = [] @ 165 # a # b # c # rest \<and> 165 \<notin> set [] \<and>
        frames (ch # chars) s = (a, b, c) # frames rest s" by simp
    then show ?thesis by blast
  qed
qed


text \<open>
  C4 (as amended). From the seek-sync state, the loop completes a block only when
  the input has a sync byte 165, preceded by bytes other than 165, and three more
  bytes after it; these three are the block, and decoding goes on behind them from
  the seek-sync state. Bytes other than 165 in front of a frame are dropped: they
  change neither the block decoded from the frame nor what \<open>Read\<close> does.
\<close>

theorem decoder_sync:
  "rx_state s = 0 \<Longrightarrow>
     (frames chars s \<noteq> [] \<longrightarrow>
        (\<exists>noise a b c rest. chars = noise @ 165 # a # b # c # rest \<and> 165 \<notin> set noise \<and>
           frames chars s = (a, b, c) # frames rest s)) \<and>
     (165 \<notin> set noise \<longrightarrow>
        frames (noise @ 165 # a # b # c # rest) s = (a, b, c) # frames rest s \<and>
        Read_loop (noise @ chars) (s, ch) = Read_loop chars (s, ch))"
  using frames_only_after_sync [of s chars] frames_noise [of s noise "165 # a # b # c # rest"]
    frames_sync [of s a b c rest] Read_loop_noise [of s noise chars ch]
  by simp

lemma frames_example: "frames [7, 165, 5, 10, 0] init = [(5, 10, 0)]"
  by (simp add: rx_step_def apply_frame_def init_def Let_def)

theorem decoder_sync_witness:
  "rx_state init = 0 \<and> frames [7, 165, 5, 10, 0] init = [(5, 10, 0)] \<and>
   (\<exists>noise a b c rest. [7, 165, 5, 10, 0] = noise @ 165 # a # b # c # rest \<and>
       165 \<notin> set noise \<and> frames [7, 165, 5, 10, 0] init = (a, b, c) # frames rest init) \<and>
   (165 :: byte) \<notin> set [7] \<and>
   frames ([7] @ 165 # 5 # 10 # 0 # []) init = (5, 10, 0) # frames [] init \<and>
   Read_loop ([7] @ [7, 165, 5, 10, 0]) (init, False) = Read_loop [7, 165, 5, 10, 0] (init, False)"
proof -
  have 0: "rx_state init = 0" by (simp add: init_def)
  have 1: "frames [7, 165, 5, 10, 0] init \<noteq> []" unfolding frames_example by simp
  have 2: "(165 :: byte) \<notin> set [7]" by simp
  have 3: "frames [] init = []" by simp
  have 4: "[7] @ [165, 5, 10, 0] = [7, 165, 5, 10, 0 :: byte]" by simp
  have 5: "[7] @ 165 # 5 # 10 # 0 # [] = [7, 165, 5, 10, 0 :: byte]" by simp
  from decoder_sync [OF 0, of "[7, 165, 5, 10, 0]" "[7]" 5 10 0 "[]" False] 1 2
  have "(\<exists>noise a b c rest. [7, 165, 5, 10, 0] = noise @ 165 # a # b # c # rest \<and>
       165 \<notin> set noise \<and> frames [7, 165, 5, 10, 0] init = (a, b, c) # frames rest init)"
    and "frames ([7] @ 165 # 5 # 10 # 0 # []) init = (5, 10, 0) # frames [] init"
    and "Read_loop ([7] @ [7, 165, 5, 10, 0]) (init, False) = Read_loop [7, 165, 5, 10, 0] (init, False)"
    by blast+
  with 0 2 frames_example show ?thesis by blast
qed

text \<open>
  C4 as stated fails for noise that contains the sync byte: after a stray 165 the
  sync byte of the frame is taken as the index, and the block \<open>(5, 10, 0)\<close> of the
  frame is never decoded nor stored.
\<close>

theorem decoder_noise_counterexample:
  "frames [165, 5, 10, 0] init = [(5, 10, 0)] \<and>
   frames ([165] @ [165, 5, 10, 0]) init = [(165, 5, 10)] \<and>
   param1 (fst (Read_loop [165, 5, 10, 0] (init, False))) ! 5 = Some 10 \<and>
   param1 (fst (Read_loop ([165] @ [165, 5, 10, 0]) (init, False))) ! 5 = None"
  by (simp add: rx_step_def apply_frame_def init_def Let_def)

section \<open>The steady-state loop\<close>

lemma encode_small: "c < 128 \<Longrightarrow> encode c = Some [c]"
  by (simp add: encode_def)

lemma Write_small: "serial_open s \<Longrightarrow> c < 128 \<Longrightarrow> Write c s = s\<lparr>sent := sent s @ [c]\<rparr>"
  by (simp add: Write_def encode_small)

lemma apply_frame_sent: "sent (fst (apply_frame a b c sc)) = sent (fst sc)"
  by (simp add: apply_frame_def Let_def)

lemma rx_step_sent: "sent (fst (rx_step ch s)) = sent s"
  by (simp add: rx_step_def)

lemma Read_loop_sent: "sent (fst (Read_loop chars sc)) = sent (fst sc)"
proof (induction chars arbitrary: sc)
  case Nil
  then show ?case by simp
next
  case (Cons ch chars)
  obtain s1 f where s1: "rx_step ch (fst sc) = (s1, f)" by (cases "rx_step ch (fst sc)")
  with rx_step_sent [of ch "fst sc"] have e: "sent s1 = sent (fst sc)" by simp
  show ?case
  proof (cases f)
    case None
    with s1 e Cons.IH [of "(s1, snd sc)"] show ?thesis by simp
  next
    case (Some fr)
    obtain a b c where fr: "fr = (a, b, c)" by (cases fr)
    from Cons.IH [of "apply_frame a b c (s1, snd sc)"] apply_frame_sent [of a b c "(s1, snd sc)"]
      s1 e Some fr show ?thesis by simp
  qed
qed

lemma Read_sent: "sent (fst (Read chars s)) = sent s"
  by (simp add: Read_def Read_loop_sent)


lemma Read_loop_frame:
  "rx_state (fst sc) = 0 \<Longrightarrow>
     Read_loop (165 # a # b # c # rest) sc =
       Read_loop rest
         (apply_frame a b c ((fst sc)\<lparr>rx_byte1 := a, rx_byte2 := b, rx_state := 0\<rparr>, snd sc))"
  by (simp add: rx_step_def)

lemma example_state_reached:
  "Read device_frames (init\<lparr>serial_open := True\<rparr>) = (example_state, True)"
  apply (simp add: Read_def device_frames_def Read_loop_frame apply_frame_def init_def
      example_state_def Let_def del: Read_loop.simps(2))
  apply code_simp
  done

lemma wf_example: "wf example_state"
  by (simp add: wf_def example_state_def)

text \<open>
  C1 (as amended). In the steady-state loop, with the relay-settings marker
  \<open>param2[6]\<close> set, standby not active and \<open>autotune\<close> different from the reported
  flag \<open>param1[17]\<close>, the loop sends the one byte \<open>59 - autotune\<close>. That byte is 59,
  the code the source sends to switch auto-tune off, exactly when \<open>autotune\<close> is 0,
  and 58 exactly when \<open>autotune\<close> is 1: in the source 58 enables and 59 disables.
\<close>

theorem autotune_command:
  assumes "wf s" and "serial_open s" and "param2 s ! 6 \<noteq> None"
    and "is_standby s = Some False" and "autotune s = Some a"
    and "Some a \<noteq> map_option uint (param1 s ! 17)" and "0 \<le> a" and "a \<le> 59"
  shows "running_command now (s, t0) = Inr (s\<lparr>sent := sent s @ [nat (59 - a)]\<rparr>, t0) \<and>
         (nat (59 - a) = autotune_off_code \<longleftrightarrow> a = 0) \<and>
         (nat (59 - a) = autotune_on_code \<longleftrightarrow> a = 1)"
proof -
  have c: "py_chr (59 - a) = Inr (nat (59 - a))" using assms(7,8) by (simp add: py_chr_def)
  have w: "Write (nat (59 - a)) s = s\<lparr>sent := sent s @ [nat (59 - a)]\<rparr>"
    using assms(2,7) by (simp add: Write_small)
  obtain y where y: "param2 s ! 6 = Some y" using assms(3) by blast
  have "running_command now (s, t0) = Inr (s\<lparr>sent := sent s @ [nat (59 - a)]\<rparr>, t0)"
    using assms(4-6) c w by (simp add: running_command_def bindE_def y)
  moreover have "(nat (59 - a) = autotune_off_code \<longleftrightarrow> a = 0) \<and>
      (nat (59 - a) = autotune_on_code \<longleftrightarrow> a = 1)"
    using assms(7,8) by (auto simp: autotune_off_code_def autotune_on_code_def)
  ultimately show ?thesis by simp
qed

theorem autotune_command_witness:
  "wf (example_state\<lparr>is_standby := Some False, autotune := Some 0\<rparr>) \<and>
   serial_open (example_state\<lparr>is_standby := Some False, autotune := Some 0\<rparr>) \<and>
   param2 (example_state\<lparr>is_standby := Some False, autotune := Some 0\<rparr>) ! 6 \<noteq> None \<and>
   Some (0 :: int) \<noteq>
     map_option uint (param1 (example_state\<lparr>is_standby := Some False, autotune := Some 0\<rparr>) ! 17) \<and>
   running_command 5 (example_state\<lparr>is_standby := Some False, autotune := Some 0\<rparr>, 0)
     = Inr (example_state\<lparr>is_standby := Some False, autotune := Some 0, sent := [59]\<rparr>, 0) \<and>
   nat (59 - 0) = autotune_off_code"
proof -
  let ?s = "example_state\<lparr>is_standby := Some False, autotune := Some 0\<rparr>"
  have 1: "wf ?s" by (simp add: wf_def example_state_def)
  have 2: "serial_open ?s" by (simp add: example_state_def)
  have 3: "param2 ?s ! 6 \<noteq> None" by (simp add: example_state_def)
  have 4: "is_standby ?s = Some False" by simp
  have 5: "autotune ?s = Some 0" by simp
  have 6: "Some (0 :: int) \<noteq> map_option uint (param1 ?s ! 17)" by (simp add: example_state_def)
  have 7: "sent ?s = []" by (simp add: example_state_def)
  from autotune_command [OF 1 2 3 4 5 6, of 5 0] 1 2 3 6 7 show ?thesis by simp
qed

text \<open>
  C1 as stated fails under the specification's assignment 58 = disable, 59 = enable:
  with \<open>autotune = 1\<close> (auto-tune wanted) and the device reporting 0, the byte sent is
  58, which that assignment calls the disable command.
\<close>

theorem autotune_command_counterexample:
  "running_command 5
     (example_state\<lparr>is_standby := Some False, autotune := Some 1,
                     param1 := (param1 example_state)[17 := Some 0]\<rparr>, 0)
     = Inr (example_state\<lparr>is_standby := Some False, autotune := Some 1,
                     param1 := (param1 example_state)[17 := Some 0], sent := [58]\<rparr>, 0) \<and>
   58 \<noteq> spec_autotune_enable \<and> 58 = spec_autotune_disable"
  by (simp add: running_command_def example_state_def bindE_def py_chr_def Write_def encode_def
      spec_autotune_enable_def spec_autotune_disable_def)

text \<open>
  C2 (as amended). In the steady-state loop, with standby active and the reported
  auto-tune flag \<open>param1[17]\<close> not 0: when the relay-settings marker \<open>param2[6]\<close> is
  set, the loop sends the byte 59, the source's auto-tune-off code, whatever
  \<open>autotune\<close> is, and a pass of the loop body that returns has sent exactly that
  byte; when \<open>param2[6]\<close> is unset, the loop sends no auto-tune command: it sends
  the update request 40 if at least one second has passed since the last request,
  and nothing otherwise.
\<close>

theorem standby_forces_off:
  assumes "wf s" and "serial_open s"
    and "is_standby s = Some True" and "param1 s ! 17 \<noteq> Some 0"
  shows "(param2 s ! 6 \<noteq> None \<longrightarrow>
            running_command now (s, t0)
              = Inr (s\<lparr>sent := sent s @ [autotune_off_code]\<rparr>, t0) \<and>
            (\<forall>r. running_tick now chars (s, t0) = Inr r \<longrightarrow>
               sent (fst (fst r)) = sent s @ [autotune_off_code])) \<and>
         (param2 s ! 6 = None \<longrightarrow>
            running_command now (s, t0)
              = (if now - t0 \<ge> 1 then Inr (s\<lparr>sent := sent s @ [40]\<rparr>, now)
                 else Inr (s, t0)) \<and>
            (\<forall>r. running_tick now chars (s, t0) = Inr r \<longrightarrow>
               sent (fst (fst r)) = (if now - t0 \<ge> 1 then sent s @ [40] else sent s)))"
proof -
  have set: "running_command now (s, t0)
               = Inr (s\<lparr>sent := sent s @ [autotune_off_code]\<rparr>, t0) \<and>
             (\<forall>r. running_tick now chars (s, t0) = Inr r \<longrightarrow>
                sent (fst (fst r)) = sent s @ [autotune_off_code])"
    if h: "param2 s ! 6 \<noteq> None"
  proof -
    obtain y where y: "param2 s ! 6 = Some y" using h by blast
    have 1: "running_command now (s, t0)
               = Inr (s\<lparr>sent := sent s @ [autotune_off_code]\<rparr>, t0)"
      using assms(2,3,4) by (simp add: running_command_def Write_small autotune_off_code_def y)
    have "sent (fst (fst r)) = sent s @ [autotune_off_code]"
      if "running_tick now chars (s, t0) = Inr r" for r
      using that Read_sent [of chars "s\<lparr>sent := sent s @ [autotune_off_code]\<rparr>"]
      by (auto simp: running_tick_def 1 bindE_def Let_def split: if_splits sum.splits)
    with 1 show ?thesis by blast
  qed
  have unset: "running_command now (s, t0)
                 = (if now - t0 \<ge> 1 then Inr (s\<lparr>sent := sent s @ [40]\<rparr>, now)
                    else Inr (s, t0)) \<and>
               (\<forall>r. running_tick now chars (s, t0) = Inr r \<longrightarrow>
                  sent (fst (fst r)) = (if now - t0 \<ge> 1 then sent s @ [40] else sent s))"
    if h: "param2 s ! 6 = None"
  proof -
    have 1: "running_command now (s, t0)
               = (if now - t0 \<ge> 1 then Inr (s\<lparr>sent := sent s @ [40]\<rparr>, now)
                  else Inr (s, t0))"
      using assms(2) h by (simp add: running_command_def Write_small)
    have "sent (fst (fst r)) = (if now - t0 \<ge> 1 then sent s @ [40] else sent s)"
      if "running_tick now chars (s, t0) = Inr r" for r
      using that Read_sent [of chars "s\<lparr>sent := sent s @ [40]\<rparr>"] Read_sent [of chars s]
      by (auto simp: running_tick_def 1 bindE_def Let_def split: if_splits sum.splits)
    with 1 show ?thesis by blast
  qed
  from set unset show ?thesis by blast
qed

theorem standby_forces_off_witness:
  "wf example_state \<and> serial_open example_state \<and> param2 example_state ! 6 \<noteq> None \<and>
   is_standby example_state = Some True \<and> param1 example_state ! 17 \<noteq> Some 0 \<and>
   running_command 5 (example_state, 0) = Inr (example_state\<lparr>sent := [59]\<rparr>, 0) \<and>
   running_tick 5 [] (example_state, 0) = Inr ((example_state\<lparr>sent := [59]\<rparr>, 0), None) \<and>
   wf (OnButtonStandby True example_state) \<and>
   serial_open (OnButtonStandby True example_state) \<and>
   is_standby (OnButtonStandby True example_state) = Some True \<and>
   param1 (OnButtonStandby True example_state) ! 17 \<noteq> Some 0 \<and>
   param2 (OnButtonStandby True example_state) ! 6 = None \<and>
   sent (OnButtonStandby True example_state) = [44] \<and>
   running_command 5 (OnButtonStandby True example_state, 0)
     = Inr ((OnButtonStandby True example_state)\<lparr>sent := [44, 40]\<rparr>, 5) \<and>
   running_command 5 (OnButtonStandby True example_state, 4.5)
     = Inr (OnButtonStandby True example_state, 4.5) \<and>
   running_tick 5 [] (OnButtonStandby True example_state, 4.5)
     = Inr ((OnButtonStandby True example_state, 4.5), None)"
proof -
  have 1: "wf example_state" by (rule wf_example)
  have 2: "serial_open example_state" by (simp add: example_state_def)
  have 3: "param2 example_state ! 6 \<noteq> None" by (simp add: example_state_def)
  have 4: "is_standby example_state = Some True" by (simp add: example_state_def)
  have 5: "param1 example_state ! 17 \<noteq> Some 0" by (simp add: example_state_def)
  have 6: "sent example_state = []" by (simp add: example_state_def)
  from standby_forces_off [OF 1 2 4 5, of 5 0 "[]"] 3
  have c: "running_command 5 (example_state, 0) = Inr (example_state\<lparr>sent := [59]\<rparr>, 0)"
    by (simp add: 6 autotune_off_code_def)
  have t: "running_tick 5 [] (example_state, 0) = Inr ((example_state\<lparr>sent := [59]\<rparr>, 0), None)"
    by (simp add: running_tick_def c bindE_def Read_def)
  let ?s = "OnButtonStandby True example_state"
  have b1: "wf ?s"
    by (simp add: wf_def OnButtonStandby_def Write_def encode_def example_state_def Let_def)
  have b2: "serial_open ?s"
    by (simp add: OnButtonStandby_def Write_def encode_def example_state_def Let_def)
  have b3: "is_standby ?s = Some True"
    by (simp add: OnButtonStandby_def Write_def encode_def example_state_def Let_def)
  have b4: "param1 ?s ! 17 \<noteq> Some 0"
    by (simp add: OnButtonStandby_def Write_def encode_def example_state_def Let_def)
  have b5: "param2 ?s ! 6 = None"
    by (simp add: OnButtonStandby_def Write_def encode_def example_state_def Let_def)
  have b6: "sent ?s = [44]"
    by (simp add: OnButtonStandby_def Write_def encode_def example_state_def Let_def)
  from standby_forces_off [OF b1 b2 b3 b4, of 5 0 "[]"] b5
  have d: "running_command 5 (?s, 0) = Inr (?s\<lparr>sent := [44, 40]\<rparr>, 5)"
    by (simp add: b6)
  from standby_forces_off [OF b1 b2 b3 b4, of 5 "4.5" "[]"] b5
  have e: "running_command 5 (?s, 4.5) = Inr (?s, 4.5)"
    by simp
  have rd: "Read [] ?s = (?s, False)" by (simp add: Read_def)
  have f: "running_tick 5 [] (?s, 4.5) = Inr ((?s, 4.5), None)"
    unfolding running_tick_def e bindE_def sum.case Let_def fst_conv snd_conv rd by simp
  from 1 2 3 4 5 c t b1 b2 b3 b4 b5 b6 d e f show ?thesis by blast
qed

text \<open>
  C2 as stated fails twice. The byte sent is 59, not the 58 that the specification's
  assignment calls disable. And right after the standby button, which clears
  \<open>param2[6]\<close>, the loop sends the update request 40, or nothing within a second of
  the last request, and no auto-tune command, although standby is active and the
  reported flag is 1.
\<close>

theorem standby_forces_off_counterexample:
  "running_command 5 (example_state\<lparr>autotune := Some 1\<rparr>, 0)
     = Inr (example_state\<lparr>autotune := Some 1, sent := [59]\<rparr>, 0) \<and>
   59 \<noteq> spec_autotune_disable \<and>
   is_standby (OnButtonStandby True example_state) = Some True \<and>
   param1 (OnButtonStandby True example_state) ! 17 = Some 1 \<and>
   sent (OnButtonStandby True example_state) = [44] \<and>
   running_command 5 (OnButtonStandby True example_state, 0)
     = Inr ((OnButtonStandby True example_state)\<lparr>sent := [44, 40]\<rparr>, 5) \<and>
   running_command 5 (OnButtonStandby True example_state, 4.5)
     = Inr (OnButtonStandby True example_state, 4.5)"
  by (simp add: running_command_def example_state_def OnButtonStandby_def Write_def encode_def
      spec_autotune_disable_def Let_def)

section \<open>Writes to the parameter lists\<close>

lemma Write_params: "param1 (Write c s) = param1 s \<and> param2 (Write c s) = param2 s"
  by (simp add: Write_def split: option.splits)

lemma unat_index: "\<not> 19 < (b :: byte) \<Longrightarrow> unat b < 20"
  by (simp add: word_less_nat_alt not_less)

lemma apply_frame_own_pair:
  assumes "wf s" and "\<not> 19 < b1"
  shows "param1 (fst (apply_frame b1 b2 b3 (s, c))) ! unat b1 = Some b2 \<and>
         param2 (fst (apply_frame b1 b2 b3 (s, c))) ! unat b1 = Some b3"
  using assms unat_index [OF assms(2)] by (simp add: apply_frame_def wf_def Let_def)

lemma apply_frame_other_pairs:
  assumes "i \<noteq> unat b1 \<or> 19 < b1"
  shows "param1 (fst (apply_frame b1 b2 b3 (s, c))) ! i = param1 s ! i \<and>
         (param2 (fst (apply_frame b1 b2 b3 (s, c))) ! i = param2 s ! i \<or>
          i = 6 \<and> (b1 = 9 \<or> b1 = 10) \<and> param2 (fst (apply_frame b1 b2 b3 (s, c))) ! i = None)"
proof (cases "19 < b1")
  case True
  then show ?thesis by (simp add: apply_frame_def)
next
  case False
  with assms have i: "i \<noteq> unat b1" by simp
  show ?thesis
  proof (cases "i = 6 \<and> i < length (param2 s)")
    case True
    with i False show ?thesis by (simp add: apply_frame_def Let_def)
  next
    case n: False
    have "(param2 s)[6 := None] ! i = param2 s ! i"
    proof (cases "i = 6")
      case True
      with n have "length (param2 s) \<le> 6" by simp
      then show ?thesis by (simp add: list_update_beyond)
    next
      case False
      then show ?thesis by simp
    qed
    with i False show ?thesis by (simp add: apply_frame_def Let_def)
  qed
qed

lemma apply_frame_clears:
  assumes "wf s" and "b1 = 9 \<or> b1 = 10"
  shows "param2 (fst (apply_frame b1 b2 b3 (s, c))) ! 6 = None"
  using assms by (auto simp: apply_frame_def wf_def Let_def)

text \<open>
  C5 (as amended). A block with index \<open>i\<close> at most 19 writes \<open>param1[i]\<close> and
  \<open>param2[i]\<close> together, from its two value bytes. No other cell of \<open>param1\<close> is
  ever written. The only other write to \<open>param2\<close> is the clearing of \<open>param2[6]\<close>:
  a block with index 9 or 10 clears it, and so does the standby button, and both
  leave \<open>param1[6]\<close> as it is. The receive state machine, \<open>Write\<close>, the other
  button handlers and the command selection of the steady-state loop write no cell.
\<close>

theorem slot_writes:
  "wf s \<Longrightarrow>
     (\<not> 19 < b1 \<longrightarrow>
        param1 (fst (apply_frame b1 b2 b3 (s, c))) ! unat b1 = Some b2 \<and>
        param2 (fst (apply_frame b1 b2 b3 (s, c))) ! unat b1 = Some b3) \<and>
     (\<forall>i. i \<noteq> unat b1 \<or> 19 < b1 \<longrightarrow>
        param1 (fst (apply_frame b1 b2 b3 (s, c))) ! i = param1 s ! i \<and>
        (param2 (fst (apply_frame b1 b2 b3 (s, c))) ! i = param2 s ! i \<or>
         i = 6 \<and> (b1 = 9 \<or> b1 = 10) \<and>
         param2 (fst (apply_frame b1 b2 b3 (s, c))) ! i = None)) \<and>
     (b1 = 9 \<or> b1 = 10 \<longrightarrow>
        param2 (fst (apply_frame b1 b2 b3 (s, c))) ! 6 = None \<and>
        param1 (fst (apply_frame b1 b2 b3 (s, c))) ! 6 = param1 s ! 6) \<and>
     param1 (fst (rx_step ch s)) = param1 s \<and> param2 (fst (rx_step ch s)) = param2 s \<and>
     param1 (OnButtonStandby v s) = param1 s \<and>
     param2 (OnButtonStandby v s) = (param2 s)[6 := None] \<and>
     param2 (OnButtonStandby v s) ! 6 = None \<and>
     param1 (Write k s) = param1 s \<and> param2 (Write k s) = param2 s \<and>
     (\<forall>r. OnButtonReq req s = Inr r \<longrightarrow> param1 r = param1 s \<and> param2 r = param2 s) \<and>
     param1 (OnButtonHiLoZ s) = param1 s \<and> param2 (OnButtonHiLoZ s) = param2 s \<and>
     param1 (OnButtonAnt v s) = param1 s \<and> param2 (OnButtonAnt v s) = param2 s \<and>
     param1 (OnButtonAuto v s) = param1 s \<and> param2 (OnButtonAuto v s) = param2 s \<and>
     (\<forall>r. OnButtonSwr var s = Inr r \<longrightarrow> param1 r = param1 s \<and> param2 r = param2 s) \<and>
     (\<forall>r. running_command now (s, t0) = Inr r \<longrightarrow>
        param1 (fst r) = param1 s \<and> param2 (fst r) = param2 s)"
proof -
  assume w: "wf s"
  have a: "\<not> 19 < b1 \<longrightarrow>
        param1 (fst (apply_frame b1 b2 b3 (s, c))) ! unat b1 = Some b2 \<and>
        param2 (fst (apply_frame b1 b2 b3 (s, c))) ! unat b1 = Some b3"
    using apply_frame_own_pair [OF w] by blast
  have b: "\<forall>i. i \<noteq> unat b1 \<or> 19 < b1 \<longrightarrow>
        param1 (fst (apply_frame b1 b2 b3 (s, c))) ! i = param1 s ! i \<and>
        (param2 (fst (apply_frame b1 b2 b3 (s, c))) ! i = param2 s ! i \<or>
         i = 6 \<and> (b1 = 9 \<or> b1 = 10) \<and>
         param2 (fst (apply_frame b1 b2 b3 (s, c))) ! i = None)"
    using apply_frame_other_pairs [of _ b1 b2 b3 s c] by blast
  have cl: "param2 (fst (apply_frame b1 b2 b3 (s, c))) ! 6 = None \<and>
        param1 (fst (apply_frame b1 b2 b3 (s, c))) ! 6 = param1 s ! 6"
    if h: "b1 = 9 \<or> b1 = 10"
  proof -
    from h have "6 \<noteq> unat b1 \<or> 19 < b1" by auto
    with apply_frame_other_pairs [of 6 b1 b2 b3 s c] apply_frame_clears [OF w h, of b2 b3 c]
    show ?thesis by blast
  qed
  have d: "param1 (fst (rx_step ch s)) = param1 s \<and> param2 (fst (rx_step ch s)) = param2 s"
    by (simp add: rx_step_def)
  have e: "param1 (OnButtonStandby v s) = param1 s \<and>
     param2 (OnButtonStandby v s) = (param2 s)[6 := None]"
    by (simp add: OnButtonStandby_def Write_params Let_def)
  have e': "param2 (OnButtonStandby v s) ! 6 = None"
    using w by (simp add: OnButtonStandby_def Write_params Let_def wf_def)
  have f: "\<forall>r. OnButtonReq req s = Inr r \<longrightarrow> param1 r = param1 s \<and> param2 r = param2 s"
    by (auto simp: OnButtonReq_def bindE_def Write_params split: sum.splits)
  have g: "param1 (OnButtonHiLoZ s) = param1 s \<and> param2 (OnButtonHiLoZ s) = param2 s"
    by (simp add: OnButtonHiLoZ_def Write_params)
  have h: "param1 (OnButtonAnt v s) = param1 s \<and> param2 (OnButtonAnt v s) = param2 s"
    by (simp add: OnButtonAnt_def Write_params)
  have i: "param1 (OnButtonAuto v s) = param1 s \<and> param2 (OnButtonAuto v s) = param2 s"
    by (simp add: OnButtonAuto_def)
  have j: "\<forall>r. OnButtonSwr var s = Inr r \<longrightarrow> param1 r = param1 s \<and> param2 r = param2 s"
    by (auto simp: OnButtonSwr_def bindE_def Write_params split: sum.splits)
  have k: "\<forall>r. running_command now (s, t0) = Inr r \<longrightarrow>
        param1 (fst r) = param1 s \<and> param2 (fst r) = param2 s"
    by (auto simp: running_command_def bindE_def Write_params Let_def
        split: sum.splits option.splits if_splits)
  from a b cl d e e' f g h i j k Write_params [of k s] show ?thesis by blast
qed

theorem slot_writes_witness:
  "wf example_state \<and>
   param1 (fst (apply_frame 9 1 2 (example_state, False))) ! unat (9 :: byte) = Some 1 \<and>
   param2 (fst (apply_frame 9 1 2 (example_state, False))) ! unat (9 :: byte) = Some 2 \<and>
   param1 (fst (apply_frame 9 1 2 (example_state, False))) ! 6 = param1 example_state ! 6 \<and>
   param2 (fst (apply_frame 9 1 2 (example_state, False))) ! 6 = None \<and>
   param2 example_state ! 6 = Some 0 \<and>
   param1 (fst (apply_frame 10 1 2 (example_state, False))) ! unat (10 :: byte) = Some 1 \<and>
   param2 (fst (apply_frame 10 1 2 (example_state, False))) ! unat (10 :: byte) = Some 2 \<and>
   param1 (fst (apply_frame 10 1 2 (example_state, False))) ! 6 = param1 example_state ! 6 \<and>
   param2 (fst (apply_frame 10 1 2 (example_state, False))) ! 6 = None \<and>
   param2 (OnButtonStandby True example_state) = (param2 example_state)[6 := None] \<and>
   param2 (OnButtonStandby True example_state) ! 6 = None \<and>
   OnButtonReq 46 example_state = Inr (example_state\<lparr>sent := [46]\<rparr>) \<and>
   OnButtonSwr 1.5 example_state = Inr (example_state\<lparr>sent := [52]\<rparr>) \<and>
   running_command 5 (example_state, 0) = Inr (example_state\<lparr>sent := [59]\<rparr>, 0)"
proof -
  have w: "wf example_state" by (simp add: wf_def example_state_def)
  have 1: "\<not> 19 < (9 :: byte)" "\<not> 19 < (10 :: byte)" by simp_all
  have 2: "(9 :: byte) = 9 \<or> (9 :: byte) = 10" "(10 :: byte) = 9 \<or> (10 :: byte) = 10"
    by simp_all
  have 3: "OnButtonSwr 1.5 example_state = Inr (example_state\<lparr>sent := [52]\<rparr>)"
    by (simp add: OnButtonSwr_def GetIndex_def labels_def bindE_def py_chr_def Write_def
        encode_def example_state_def)
  have 4: "running_command 5 (example_state, 0) = Inr (example_state\<lparr>sent := [59]\<rparr>, 0)"
    by (simp add: running_command_def example_state_def Write_def encode_def)
  have 5: "OnButtonReq 46 example_state = Inr (example_state\<lparr>sent := [46]\<rparr>)"
    by (simp add: OnButtonReq_def bindE_def py_chr_def Write_def encode_def example_state_def)
  have 6: "param2 example_state ! 6 = Some 0" by (simp add: example_state_def)
  note t9 = slot_writes [OF w, where ?b1.0 = 9 and ?b2.0 = 1 and ?b3.0 = 2 and c = False
      and ch = 0 and v = True and k = 0 and req = 46 and var = "1.5" and now = 5 and ?t0.0 = 0]
  note t10 = slot_writes [OF w, where ?b1.0 = 10 and ?b2.0 = 1 and ?b3.0 = 2 and c = False
      and ch = 0 and v = True and k = 0 and req = 46 and var = "1.5" and now = 5 and ?t0.0 = 0]
  from t9 1(1) 2(1)
  have a9: "param1 (fst (apply_frame 9 1 2 (example_state, False))) ! unat (9 :: byte) = Some 1"
    "param2 (fst (apply_frame 9 1 2 (example_state, False))) ! unat (9 :: byte) = Some 2"
    "param1 (fst (apply_frame 9 1 2 (example_state, False))) ! 6 = param1 example_state ! 6"
    "param2 (fst (apply_frame 9 1 2 (example_state, False))) ! 6 = None"
    "param2 (OnButtonStandby True example_state) = (param2 example_state)[6 := None]"
    "param2 (OnButtonStandby True example_state) ! 6 = None"
    by blast+
  from t10 1(2) 2(2)
  have a10: "param1 (fst (apply_frame 10 1 2 (example_state, False))) ! unat (10 :: byte) = Some 1"
    "param2 (fst (apply_frame 10 1 2 (example_state, False))) ! unat (10 :: byte) = Some 2"
    "param1 (fst (apply_frame 10 1 2 (example_state, False))) ! 6 = param1 example_state ! 6"
    "param2 (fst (apply_frame 10 1 2 (example_state, False))) ! 6 = None"
    by blast+
  from w a9 a10 3 4 5 6 show ?thesis by blast
qed

text \<open>
  C5 as stated fails: the standby button, a tune-pass block (index 9) and a
  tune-fail block (index 10) clear \<open>param2[6]\<close> and leave \<open>param1[6]\<close> untouched, so
  one slot of pair 6 is written without the other and not from a frame for
  index 6.
\<close>

theorem slot_writes_counterexample:
  "param1 example_state ! 6 = Some 0 \<and> param2 example_state ! 6 = Some 0 \<and>
   param1 (OnButtonStandby True example_state) ! 6 = Some 0 \<and>
   param2 (OnButtonStandby True example_state) ! 6 = None \<and>
   param1 (fst (apply_frame 9 1 2 (example_state, False))) ! 6 = Some 0 \<and>
   param2 (fst (apply_frame 9 1 2 (example_state, False))) ! 6 = None \<and>
   param1 (fst (apply_frame 10 1 2 (example_state, False))) ! 6 = Some 0 \<and>
   param2 (fst (apply_frame 10 1 2 (example_state, False))) ! 6 = None"
  by (simp add: OnButtonStandby_def Write_def encode_def apply_frame_def example_state_def Let_def)

section \<open>The derived values\<close>

lemma bindE_Inr: "bindE m f = Inr y \<longleftrightarrow> (\<exists>x. m = Inr x \<and> f x = Inr y)"
  by (cases m) (simp_all add: bindE_def)

lemma num_Inr: "num v = Inr n \<longleftrightarrow> (\<exists>b. v = Some b \<and> n = uint b)"
  by (cases v) (auto simp: num_def)

lemma rho_less_1: "sqrt (real (unat (c :: byte)) / 256) < 1"
proof -
  have "unat c < 256" using unsigned_less [of c, where ?'a = nat] by simp
  then have "real (unat c) < real 256" by (rule of_nat_less_iff [THEN iffD2])
  then have "real (unat c) / 256 < 1" by simp
  then show ?thesis by (simp only: real_sqrt_lt_1_iff)
qed

lemma swr_display_Some:
  assumes "2 \<le> pwr"
  shows "swr_display pwr (Some c) =
           (let rho = sqrt (real (unat c) / 256); swr = min (99.9) ((1 + rho) / (1 - rho))
            in Inr (Some swr, min 1 ((swr - 1) / 4)))"
proof -
  have ne: "(1 - sqrt (real (unat c) / 256) = 0) = False" using rho_less_1 [of c] by simp
  have clamp: "\<And>x :: real. (if x > 99.9 then 99.9 else x) = min (99.9) x"
    by (simp add: min_def)
  have m: "MAX_SWR - 1 = 4" by (simp add: MAX_SWR_def)
  have p: "(pwr \<ge> 2) = True" using assms by simp
  show ?thesis
    unfolding swr_display_def Let_def option.case ne clamp m p by (simp only: if_True if_False)
qed

lemma swr_display_zero: "2 \<le> pwr \<Longrightarrow> swr_display pwr (Some 0) = Inr (Some 1, 0)"
  by (simp add: swr_display_def MAX_SWR_def)

lemma swr_display_low: "pwr < 2 \<Longrightarrow> swr_display pwr code = Inr (None, 0)"
  by (simp add: swr_display_def split: option.splits)


lemma NewData_InrD:
  assumes "NewData s = Inr d"
  shows "\<exists>a5 b5 a18 b18 sw standby i a7 b7 l c.
           param1 s ! 5 = Some a5 \<and> param2 s ! 5 = Some b5 \<and>
           param1 s ! 18 = Some a18 \<and> param2 s ! 18 = Some b18 \<and>
           swr_display (real_of_int (uint a5 * 256 + uint b5) / 100) (param2 s ! 6) = Inr sw \<and>
           is_standby s = Some standby \<and>
           param1 s ! 16 = Some i \<and> unat i < length labels \<and>
           param1 s ! 7 = Some a7 \<and> param2 s ! 7 = Some b7 \<and> uint a7 * 256 + uint b7 \<noteq> 0 \<and>
           param1 s ! 1 = Some l \<and> param1 s ! 2 = Some c \<and>
           forw_power d = real_of_int (uint a5 * 256 + uint b5) / 100 \<and>
           swr_value d = fst sw \<and> swr_frac d = snd sw \<and>
           swr_threshold d = labels ! unat i \<and>
           freq_khz d = 20480000 / real_of_int (uint a7 * 256 + uint b7)"
  using assms
  by (auto simp: NewData_def bindE_Inr num_Inr DisplayIndex_def Let_def
      split: if_splits option.splits)


lemma NewData_example:
  "NewData example_state =
     Inr \<lparr> forw_power = 25.6, forw_frac = 0.128, refl_power = 0.5, refl_frac = 0.0025,
           swr_value = Some 1, swr_frac = 0, standby_shown = True, antenna2_shown = False,
           auto_on_shown = True, swr_threshold = 1.5, freq_khz = 10000, induc = 3, capac = 4,
           hilow = ''High Z'', tune_shown = ''None'' \<rparr>"
  by (simp add: NewData_def example_state_def bindE_def num_def swr_display_def DisplayIndex_def
      labels_def truthy_def MAX_POWER_def MAX_SWR_def Let_def)

text \<open>
  C6. The SWR value is computed only when the forward power is at least 2.0 W and
  \<open>param2[6]\<close> is present, as \<open>(1 + rho) / (1 - rho)\<close> with
  \<open>rho = sqrt(param2[6] / 256)\<close>, clamped to at most 99.9; the division never fails.
  With \<open>param2[6] = 0\<close> and at least 2.0 W it is exactly 1. Below 2.0 W, or with
  \<open>param2[6]\<close> unset, no value is shown (the bare text \<open>SWR\<close>). \<open>NewData\<close> shows the
  value so derived from the forward power \<open>(param1[5] * 256 + param2[5]) / 100\<close>.
\<close>

theorem swr_derivation:
  "(2 \<le> pwr \<longrightarrow>
      swr_display pwr (Some c) =
        (let rho = sqrt (real (unat c) / 256); swr = min (99.9) ((1 + rho) / (1 - rho))
         in Inr (Some swr, min 1 ((swr - 1) / 4))) \<and>
      swr_display pwr (Some 0) = Inr (Some 1, 0)) \<and>
   (pwr < 2 \<longrightarrow> swr_display pwr code = Inr (None, 0)) \<and>
   swr_display pwr None = Inr (None, 0) \<and>
   (NewData s = Inr d \<longrightarrow>
      (\<exists>a b. param1 s ! 5 = Some a \<and> param2 s ! 5 = Some b \<and>
             forw_power d = real (unat a * 256 + unat b) / 100) \<and>
      swr_display (forw_power d) (param2 s ! 6) = Inr (swr_value d, swr_frac d))"
proof -
  have 1: "2 \<le> pwr \<longrightarrow>
      swr_display pwr (Some c) =
        (let rho = sqrt (real (unat c) / 256); swr = min (99.9) ((1 + rho) / (1 - rho))
         in Inr (Some swr, min 1 ((swr - 1) / 4))) \<and>
      swr_display pwr (Some 0) = Inr (Some 1, 0)"
    using swr_display_Some [of pwr c] swr_display_zero [of pwr] by blast
  have 2: "pwr < 2 \<longrightarrow> swr_display pwr code = Inr (None, 0)"
    using swr_display_low [of pwr code] by blast
  have 3: "swr_display pwr None = Inr (None, 0)" by (simp add: swr_display_def)
  have 4: "(\<exists>a b. param1 s ! 5 = Some a \<and> param2 s ! 5 = Some b \<and>
             forw_power d = real (unat a * 256 + unat b) / 100) \<and>
      swr_display (forw_power d) (param2 s ! 6) = Inr (swr_value d, swr_frac d)"
    if "NewData s = Inr d"
  proof -
    from NewData_InrD [OF that] obtain a5 b5 sw where
      h: "param1 s ! 5 = Some a5" "param2 s ! 5 = Some b5"
         "swr_display (real_of_int (uint a5 * 256 + uint b5) / 100) (param2 s ! 6) = Inr sw"
         "forw_power d = real_of_int (uint a5 * 256 + uint b5) / 100"
         "swr_value d = fst sw" "swr_frac d = snd sw"
      by blast
    have e: "real_of_int (uint a5 * 256 + uint b5) = real (unat a5 * 256 + unat b5)" by simp
    have sw: "sw = (swr_value d, swr_frac d)" using h(5,6) by simp
    have p: "forw_power d = real (unat a5 * 256 + unat b5) / 100" using h(4) by (simp only: e)
    have q: "swr_display (forw_power d) (param2 s ! 6) = Inr (swr_value d, swr_frac d)"
      using h(3) by (simp only: h(4) sw)
    from h(1,2) p q show ?thesis by blast
  qed
  from 1 2 3 4 show ?thesis by blast
qed

theorem swr_derivation_witness:
  "(2 :: real) \<le> 25.6 \<and> swr_display 25.6 (Some 0) = Inr (Some 1, 0) \<and>
   (1.99 :: real) < 2 \<and> swr_display 1.99 (Some 0) = Inr (None, 0) \<and>
   (\<exists>d. NewData example_state = Inr d \<and> forw_power d = 25.6 \<and>
        param2 example_state ! 6 = Some 0 \<and> swr_value d = Some 1)"
proof -
  have 1: "(2 :: real) \<le> 25.6" by simp
  have 2: "(1.99 :: real) < 2" by simp
  let ?d = "\<lparr> forw_power = 25.6, forw_frac = 0.128, refl_power = 0.5, refl_frac = 0.0025,
           swr_value = Some 1, swr_frac = 0, standby_shown = True, antenna2_shown = False,
           auto_on_shown = True, swr_threshold = 1.5, freq_khz = 10000, induc = 3, capac = 4,
           hilow = ''High Z'', tune_shown = ''None'' \<rparr>"
  have 3: "NewData example_state = Inr ?d" by (rule NewData_example)
  have 4: "param2 example_state ! 6 = Some 0" by (simp add: example_state_def)
  from swr_derivation [of "25.6" 0 "Some 0" example_state ?d] 1 3 4
  have a: "swr_display 25.6 (Some 0) = Inr (Some 1, 0)" by simp
  from swr_derivation [of "1.99" 0 "Some 0" example_state ?d] 2
  have b: "swr_display 1.99 (Some 0) = Inr (None, 0)" by blast
  from 1 2 3 4 a b show ?thesis by simp
qed

lemma GetIndex_labels: "k \<le> 6 \<Longrightarrow> GetIndex (labels ! k) = Inr k"
proof -
  assume "k \<le> 6"
  then consider "k = 0" | "k = 1" | "k = 2" | "k = 3" | "k = 4" | "k = 5" | "k = 6" by linarith
  then show ?thesis
    by cases (simp_all add: GetIndex_def labels_def)
qed

lemma unat_of_nat_small: "k \<le> 6 \<Longrightarrow> unat (of_nat k :: byte) = k"
  by (simp add: unat_of_nat take_bit_nat_eq_self)

text \<open>
  C9. For a threshold index \<open>k\<close> from 0 to 6, selecting the radio button with the
  \<open>k\<close>-th label sends the command byte \<open>50 + k\<close>, and displaying a device state whose
  \<open>param1[16]\<close> is \<open>k\<close> selects the \<open>k\<close>-th label of the fixed list
  1.1, 1.3, 1.5, 1.7, 2.0, 2.5, 3.0.
\<close>

theorem swr_threshold_roundtrip:
  assumes "k \<le> 6" and "serial_open s"
  shows "OnButtonSwr (labels ! k) s = Inr (s\<lparr>sent := sent s @ [50 + k]\<rparr>) \<and>
         DisplayIndex (Some (of_nat k)) = Inr (labels ! k) \<and>
         labels = [1.1, 1.3, 1.5, 1.7, 2.0, 2.5, 3.0] \<and>
         (\<forall>d. param1 s ! 16 = Some (of_nat k) \<longrightarrow> NewData s = Inr d \<longrightarrow>
              swr_threshold d = labels ! k)"
proof -
  have 1: "OnButtonSwr (labels ! k) s = Inr (s\<lparr>sent := sent s @ [50 + k]\<rparr>)"
    using assms
    by (simp add: OnButtonSwr_def GetIndex_labels bindE_def py_chr_def Write_def encode_def
        add.commute)
  have 2: "DisplayIndex (Some (of_nat k)) = Inr (labels ! k)"
    using assms(1) by (simp add: DisplayIndex_def unat_of_nat_small) (simp add: labels_def)
  have 3: "swr_threshold d = labels ! k"
    if "param1 s ! 16 = Some (of_nat k)" "NewData s = Inr d" for d
    using NewData_InrD [OF that(2)] that(1) assms(1) by (auto simp: unat_of_nat_small)
  from 1 2 3 show ?thesis by (simp add: labels_def)
qed

theorem swr_threshold_roundtrip_witness:
  "(2 :: nat) \<le> 6 \<and> serial_open example_state \<and>
   OnButtonSwr 1.5 example_state = Inr (example_state\<lparr>sent := [52]\<rparr>) \<and>
   param1 example_state ! 16 = Some 2 \<and>
   DisplayIndex (param1 example_state ! 16) = Inr 1.5 \<and>
   (\<exists>d. NewData example_state = Inr d \<and> swr_threshold d = 1.5)"
proof -
  have 1: "(2 :: nat) \<le> 6" by simp
  have 2: "serial_open example_state" by (simp add: example_state_def)
  have 3: "param1 example_state ! 16 = Some 2" by (simp add: example_state_def)
  have 4: "sent example_state = []" by (simp add: example_state_def)
  have 5: "labels ! 2 = 1.5" by (simp add: labels_def)
  have 6: "\<exists>d. NewData example_state = Inr d \<and> swr_threshold d = 1.5"
    by (simp add: NewData_example)
  from swr_threshold_roundtrip [OF 1 2] 3 4 5 6 1 2 show ?thesis by simp
qed

text \<open>
  C3. The claim asks for a frequency reported as unavailable when the period
  code \<open>param1[7] * 256 + param2[7]\<close> is 0. The source divides without a guard
  (line 577): when the device sends the frame \<open>165, 7, 0, 0\<close>, \<open>NewData\<close> raises
  \<open>ZeroDivisionError\<close>, and so does the pass of the steady-state loop that reads it.
\<close>

theorem frequency_zero_crash:
  "NewData (fst (Read [165, 7, 0, 0] example_state)) = Inl ZeroDivisionError \<and>
   running_tick 5 [165, 7, 0, 0] (example_state, 0) = Inl ZeroDivisionError"
proof -
  have r: "\<And>s. serial_open s \<Longrightarrow> rx_state s = 0 \<Longrightarrow> Read [165, 7, 0, 0] s =
      (s\<lparr>rx_byte1 := 7, rx_byte2 := 0, rx_state := 0,
          param1 := (param1 s)[7 := Some 0], param2 := (param2 s)[7 := Some 0]\<rparr>, True)"
    by (simp add: Read_def rx_step_def apply_frame_def Let_def)
  have 1: "NewData (fst (Read [165, 7, 0, 0] example_state)) = Inl ZeroDivisionError"
    by (simp add: r example_state_def)
       (simp add: NewData_def bindE_def num_def swr_display_def DisplayIndex_def labels_def
          MAX_SWR_def Let_def)
  have c: "running_command 5 (example_state, 0) = Inr (example_state\<lparr>sent := [59]\<rparr>, 0)"
    by (simp add: running_command_def example_state_def Write_def encode_def)
  have sn: "snd (Read [165, 7, 0, 0] (example_state\<lparr>sent := [59]\<rparr>)) = True"
    by (simp add: r example_state_def)
  have n: "NewData (fst (Read [165, 7, 0, 0] (example_state\<lparr>sent := [59]\<rparr>)))
             = Inl ZeroDivisionError"
    by (simp add: r example_state_def)
       (simp add: NewData_def bindE_def num_def swr_display_def DisplayIndex_def labels_def
          MAX_SWR_def Let_def)
  have 2: "running_tick 5 [165, 7, 0, 0] (example_state, 0) = Inl ZeroDivisionError"
    by (simp only: running_tick_def c bindE_def sum.case Let_def fst_conv snd_conv sn n if_True)
  from 1 2 show ?thesis by simp
qed






end
